theory Spec2Isabelle
  imports Complex_Main
begin

section \<open>Arrays and the errors of the notebook\<close>

text \<open>
  The notebook \<^verbatim>\<open>python_for_mri.ipynb\<close> works on numpy arrays of 64-bit floats.
  The embedding takes the entries as real numbers, and sums and products are exact.
  A statement below is a statement about the notebook's numbers where its sums and
  products are exact in 64-bit floats too; rounding, overflow to infinity and the order
  of summation inside \<^verbatim>\<open>@\<close> are not modelled, and nothing here is claimed of them.

  A failing numpy operation raises an exception; the model returns it as a value.
  \<open>ValueError\<close> is what \<^verbatim>\<open>@\<close> raises for operands whose sizes do not fit,
  \<open>IndexError\<close> what indexing raises out of range. \<open>ShapeMismatch\<close>,
  \<open>DegenerateTransform\<close> and \<open>SingularMatrix\<close> are the errors named by the
  specification; no code of the notebook raises them.
\<close>

datatype error = ValueError | IndexError | ShapeMismatch | DegenerateTransform | SingularMatrix

text \<open>
  A one-dimensional array, such as \<^verbatim>\<open>np.array([69, 119, 109, 1])\<close>, is the list of
  its elements. A two-dimensional array, such as \<^verbatim>\<open>img.affine\<close>, is its shape
  \<open>(nrows, ncols)\<close> and its entries, read by row and column from 0.
\<close>

type_synonym vector = "real list"

record matrix =
  nrows :: nat
  ncols :: nat
  entry :: "nat \<Rightarrow> nat \<Rightarrow> real"

text \<open>
  \<^verbatim>\<open>A @ v\<close> for a two-dimensional \<open>A\<close> of shape \<open>(m, n)\<close> and a
  one-dimensional \<open>v\<close>: numpy raises ValueError unless \<open>v\<close> has \<open>n\<close> elements, and
  otherwise returns the one-dimensional array of the \<open>m\<close> row-by-vector sums.
\<close>

definition dot_row :: "matrix \<Rightarrow> nat \<Rightarrow> vector \<Rightarrow> real" where
  "dot_row A r v = sum_list (map (\<lambda>c. entry A r c * v ! c) [0..<ncols A])"

definition matmul :: "matrix \<Rightarrow> vector \<Rightarrow> error + vector" where
  "matmul A v =
     (if ncols A = length v then Inr (map (\<lambda>r. dot_row A r v) [0..<nrows A])
      else Inl ValueError)"

section \<open>From voxel indices to world coordinates\<close>

text \<open>
  The notebook's cell
  \<^verbatim>\<open>xyz1 = A @ np.array([69, 119, 109, 1])\<close>
  with the three voxel indices as parameters. The result keeps the fourth component.
\<close>

definition xyz1 :: "matrix \<Rightarrow> real \<Rightarrow> real \<Rightarrow> real \<Rightarrow> error + vector" where
  "xyz1 A i j k = matmul A [i, j, k, 1]"

text \<open>
  The world coordinates are the first three components of \<open>xyz1\<close>: the exercise on the
  middle voxel asks for an array of size 3 with the extra 1 removed, that is
  \<^verbatim>\<open>xyz1[:3]\<close>. This is the operation the specification calls
  \<open>voxel_to_physical\<close>. Nothing is divided.
\<close>

definition voxel_to_physical :: "matrix \<Rightarrow> real \<Rightarrow> real \<Rightarrow> real \<Rightarrow> error + vector" where
  "voxel_to_physical A i j k =
     (case xyz1 A i j k of Inl e \<Rightarrow> Inl e | Inr v \<Rightarrow> Inr (take 3 v))"

text \<open>The affine of the specification's concrete scenario.\<close>

definition scenario_affine :: matrix where
  "scenario_affine =
     \<lparr>nrows = 4, ncols = 4,
      entry = (\<lambda>r c. [[-1, 0, 0, 120], [0, 1, 0, -120], [0, 0, 1, -110], [0, 0, 0, 1]] ! r ! c)\<rparr>"

text \<open>Its first three rows only: an array of shape \<open>(3, 4)\<close>.\<close>

definition truncated_affine :: matrix where
  "truncated_affine = scenario_affine\<lparr>nrows := 3\<rparr>"

text \<open>An affine whose last row is \<open>[0, 0, 0, 2]\<close>: its homogeneous term is 2 everywhere.\<close>

definition halving_affine :: matrix where
  "halving_affine =
     \<lparr>nrows = 4, ncols = 4,
      entry = (\<lambda>r c. [[1, 0, 0, 0], [0, 1, 0, 0], [0, 0, 1, 0], [0, 0, 0, 2]] ! r ! c)\<rparr>"

subsection \<open>The algorithm in the specification's words\<close>

text \<open>
  The specification describes the operation differently: the affine must be exactly
  \<open>4 \<times> 4\<close> (ShapeMismatch otherwise); the product \<open>affine \<cdot> (i, j, k, 1)\<close> is
  \<open>(x', y', z', w)\<close>; the first three components are divided by \<open>w\<close>; \<open>w = 0\<close> is the
  DegenerateTransform condition. \<open>voxel_to_physical_spec\<close> follows these words, to be
  compared with the notebook's computation.
\<close>

definition homogenize :: "vector \<Rightarrow> error + vector" where
  "homogenize v =
     (let w = v ! 3 in
      if w = 0 then Inl DegenerateTransform else Inr [v ! 0 / w, v ! 1 / w, v ! 2 / w])"

definition voxel_to_physical_spec :: "matrix \<Rightarrow> real \<Rightarrow> real \<Rightarrow> real \<Rightarrow> error + vector" where
  "voxel_to_physical_spec A i j k =
     (if nrows A \<noteq> 4 \<or> ncols A \<noteq> 4 then Inl ShapeMismatch
      else case matmul A [i, j, k, 1] of Inl e \<Rightarrow> Inl e | Inr v \<Rightarrow> homogenize v)"

section \<open>Indexing the image data\<close>

text \<open>
  \<^verbatim>\<open>img_data\<close> and \<^verbatim>\<open>f_img_data\<close> are numpy arrays of three and four dimensions.
  An array is its shape and its elements, read by a list of positions, one for each axis.
\<close>

record 'a ndarray =
  shape :: "nat list"
  item :: "nat list \<Rightarrow> 'a"

text \<open>
  Between the brackets stands, for each axis, an integer (\<^verbatim>\<open>119\<close>) or a slice
  \<^verbatim>\<open>start:stop:step\<close>, each part of which may be left out (\<^verbatim>\<open>:\<close>,
  \<^verbatim>\<open>118:121\<close>, \<^verbatim>\<open>1::2\<close>).
\<close>

datatype index = Idx int | Slice "int option" "int option" "int option"

text \<open>
  Python's \<^verbatim>\<open>slice.indices\<close>: the start, stop and step of a slice on an axis of
  length \<open>n\<close>. Negative bounds count from the end, and bounds are clipped to the axis.
  A step of zero raises ValueError.
\<close>

definition slice_indices ::
  "int option \<Rightarrow> int option \<Rightarrow> int option \<Rightarrow> nat \<Rightarrow> error + (int \<times> int \<times> int)" where
  "slice_indices start stop step n =
     (let st = (case step of None \<Rightarrow> 1 | Some s \<Rightarrow> s) in
      if st = 0 then Inl ValueError
      else
        let lower = (if st < 0 then -1 else 0);
            upper = (if st < 0 then int n - 1 else int n);
            clip = (\<lambda>b. if b < 0 then max (b + int n) lower else min b upper);
            lo = (case start of None \<Rightarrow> (if st < 0 then upper else lower) | Some b \<Rightarrow> clip b);
            hi = (case stop of None \<Rightarrow> (if st < 0 then lower else upper) | Some b \<Rightarrow> clip b)
        in Inr (lo, hi, st))"

text \<open>The number of positions \<open>lo, lo + st, lo + 2 st, ...\<close> before \<open>hi\<close>.\<close>

definition range_len :: "int \<Rightarrow> int \<Rightarrow> int \<Rightarrow> nat" where
  "range_len lo hi st =
     (if 0 < st then (if lo < hi then nat ((hi - lo - 1) div st + 1) else 0)
      else (if hi < lo then nat ((lo - hi - 1) div (- st) + 1) else 0))"

text \<open>
  What an index does to its axis: an integer picks one position and removes the axis
  from the result; a slice keeps the axis, with the positions it selects.
\<close>

datatype axis = Pick nat | Stride int int nat

text \<open>
  The indices are matched with the axes from the first, and the first index that fails
  gives the error. An integer \<open>i\<close> on an axis of length \<open>n\<close> must satisfy
  \<open>-n \<le> i < n\<close> (IndexError otherwise) and counts from the end when negative. Axes with
  no index are kept whole.
\<close>

fun resolve :: "index list \<Rightarrow> nat list \<Rightarrow> error + axis list" where
  "resolve [] [] = Inr []"
| "resolve [] (n # ns) =
     (case resolve [] ns of Inl e \<Rightarrow> Inl e | Inr axs \<Rightarrow> Inr (Stride 0 1 n # axs))"
| "resolve (ix # ixs) [] = Inl IndexError"
| "resolve (Idx i # ixs) (n # ns) =
     (if - int n \<le> i \<and> i < int n
      then (case resolve ixs ns of Inl e \<Rightarrow> Inl e
            | Inr axs \<Rightarrow> Inr (Pick (nat (if i < 0 then i + int n else i)) # axs))
      else Inl IndexError)"
| "resolve (Slice a b s # ixs) (n # ns) =
     (case slice_indices a b s n of Inl e \<Rightarrow> Inl e
      | Inr (lo, hi, st) \<Rightarrow>
          (case resolve ixs ns of Inl e \<Rightarrow> Inl e
           | Inr axs \<Rightarrow> Inr (Stride lo st (range_len lo hi st) # axs)))"

fun result_shape :: "axis list \<Rightarrow> nat list" where
  "result_shape [] = []"
| "result_shape (Pick p # axs) = result_shape axs"
| "result_shape (Stride lo st n # axs) = n # result_shape axs"

text \<open>The position in the indexed array that a position of the result is read from.\<close>

fun source_index :: "axis list \<Rightarrow> nat list \<Rightarrow> nat list" where
  "source_index [] idx = []"
| "source_index (Pick p # axs) idx = p # source_index axs idx"
| "source_index (Stride lo st n # axs) [] = []"
| "source_index (Stride lo st n # axs) (q # idx) = nat (lo + st * int q) # source_index axs idx"

text \<open>
  \<^verbatim>\<open>a[ix, ...]\<close>. numpy counts the indices before it looks at any of them: more
  indices than axes is an IndexError, whatever the indices are.
\<close>

definition getitem :: "'a ndarray \<Rightarrow> index list \<Rightarrow> error + 'a ndarray" where
  "getitem a ixs =
     (if length (shape a) < length ixs then Inl IndexError
      else case resolve ixs (shape a) of Inl e \<Rightarrow> Inl e
        | Inr axs \<Rightarrow>
            Inr \<lparr>shape = result_shape axs, item = (\<lambda>idx. item a (source_index axs idx))\<rparr>)"

text \<open>The notebook's \<^verbatim>\<open>mid_slice_x = img_data[119, :, :]\<close>.\<close>

definition mid_slice_x :: "'a ndarray \<Rightarrow> error + 'a ndarray" where
  "mid_slice_x img_data =
     getitem img_data [Idx 119, Slice None None None, Slice None None None]"

text \<open>
  Modelled from the spec: the extraction of the odd timepoints. The notebook leaves it
  as an exercise (its cell raises NotImplementedError) and checks the answer with
  \<^verbatim>\<open>test_extract_voxel_timeseries\<close> of \<^verbatim>\<open>niedu.tests.nii.week_1\<close>, which is
  not among the sources. The specification asks for all odd indices \<open>1, 3, 5, ...\<close> along
  axis 3, which in the notebook's notation is \<^verbatim>\<open>f_img_data[:, :, :, 1::2]\<close>.
\<close>

definition f_img_data_odd :: "'a ndarray \<Rightarrow> error + 'a ndarray" where
  "f_img_data_odd f_img_data =
     getitem f_img_data
       [Slice None None None, Slice None None None, Slice None None None,
        Slice (Some 1) None (Some 2)]"

text \<open>An array of a given shape whose element at a position is the list of its indices.\<close>

definition positions :: "nat list \<Rightarrow> (nat list) ndarray" where
  "positions sh = \<lparr>shape = sh, item = (\<lambda>idx. idx)\<rparr>"

section \<open>The inverse direction\<close>

text \<open>
  Modelled from the spec: \<open>physical_to_voxel\<close>. The notebook never inverts the affine
  and has no such function; the specification derives it: compute the matrix inverse of
  the affine, failing with SingularMatrix if the leading \<open>3 \<times> 3\<close> submatrix has zero
  determinant, and apply the same multiply-and-homogenize procedure. The definitions of
  this section follow those words. The inverse is computed as the transposed matrix of
  cofactors divided by the determinant.
\<close>

text \<open>Modelled from the spec: the leading \<open>3 \<times> 3\<close> submatrix, rows and columns 0 to 2.\<close>

definition leading_block :: "matrix \<Rightarrow> matrix" where
  "leading_block A = \<lparr>nrows = 3, ncols = 3, entry = entry A\<rparr>"

text \<open>Modelled from the spec: the matrix without row \<open>r\<close> and column \<open>c\<close>.\<close>

definition delete_row_col :: "matrix \<Rightarrow> nat \<Rightarrow> nat \<Rightarrow> matrix" where
  "delete_row_col A r c =
     \<lparr>nrows = nrows A - 1, ncols = ncols A - 1,
      entry = (\<lambda>i j. entry A (if i < r then i else i + 1) (if j < c then j else j + 1))\<rparr>"

text \<open>Modelled from the spec: the determinant of a \<open>3 \<times> 3\<close> matrix.\<close>

definition det3 :: "matrix \<Rightarrow> real" where
  "det3 M =
     entry M 0 0 * (entry M 1 1 * entry M 2 2 - entry M 1 2 * entry M 2 1)
     - entry M 0 1 * (entry M 1 0 * entry M 2 2 - entry M 1 2 * entry M 2 0)
     + entry M 0 2 * (entry M 1 0 * entry M 2 1 - entry M 1 1 * entry M 2 0)"

text \<open>Modelled from the spec: the cofactors of a \<open>4 \<times> 4\<close> matrix.\<close>

definition cofactor :: "matrix \<Rightarrow> nat \<Rightarrow> nat \<Rightarrow> real" where
  "cofactor A r c = (- 1) ^ (r + c) * det3 (delete_row_col A r c)"

text \<open>
  Modelled from the spec: the determinant of a \<open>4 \<times> 4\<close> matrix, expanded along its
  first row.
\<close>

definition det4 :: "matrix \<Rightarrow> real" where
  "det4 A = entry A 0 0 * cofactor A 0 0 + entry A 0 1 * cofactor A 0 1
          + entry A 0 2 * cofactor A 0 2 + entry A 0 3 * cofactor A 0 3"

text \<open>
  Modelled from the spec: the matrix inverse of a \<open>4 \<times> 4\<close> matrix. A matrix of
  determinant zero has none.
\<close>

definition inverse4 :: "matrix \<Rightarrow> matrix option" where
  "inverse4 A =
     (if det4 A = 0 then None
      else Some \<lparr>nrows = 4, ncols = 4, entry = (\<lambda>r c. cofactor A c r / det4 A)\<rparr>)"

text \<open>
  Modelled from the spec: \<open>physical_to_voxel(affine, x, y, z)\<close>. ShapeMismatch for an
  affine that is not \<open>4 \<times> 4\<close>; SingularMatrix if the leading \<open>3 \<times> 3\<close> submatrix has
  zero determinant, the one condition the specification gives for this error; otherwise
  the multiply-and-homogenize procedure of \<open>voxel_to_physical_spec\<close> with the inverse.
  Where the leading submatrix is invertible and the affine has no inverse, the
  specification names no error for this operation: the model reports its other error
  of a transform that cannot be inverted, DegenerateTransform.
\<close>

definition physical_to_voxel :: "matrix \<Rightarrow> real \<Rightarrow> real \<Rightarrow> real \<Rightarrow> error + vector" where
  "physical_to_voxel A x y z =
     (if nrows A \<noteq> 4 \<or> ncols A \<noteq> 4 then Inl ShapeMismatch
      else if det3 (leading_block A) = 0 then Inl SingularMatrix
      else case inverse4 A of None \<Rightarrow> Inl DegenerateTransform
           | Some B \<Rightarrow> voxel_to_physical_spec B x y z)"

text \<open>An affine whose leading block has two identical rows.\<close>

definition collapsed_affine :: matrix where
  "collapsed_affine =
     \<lparr>nrows = 4, ncols = 4,
      entry = (\<lambda>r c. [[1, 0, 0, 0], [1, 0, 0, 0], [0, 0, 1, 0], [0, 0, 0, 1]] ! r ! c)\<rparr>"

section \<open>Properties\<close>

subsection \<open>The product, row by row\<close>

lemma dot_row_4:
  "ncols A = 4 \<Longrightarrow>
   dot_row A r [a, b, c, d] =
     entry A r 0 * a + entry A r 1 * b + entry A r 2 * c + entry A r 3 * d"
  by (simp add: dot_row_def upt_rec numeral_nat)

lemma matmul_4x4:
  "nrows A = 4 \<Longrightarrow> ncols A = 4 \<Longrightarrow>
   matmul A v = Inr [dot_row A 0 v, dot_row A 1 v, dot_row A 2 v, dot_row A 3 v]"
  if "length v = 4"
  using that by (simp add: matmul_def upt_rec numeral_nat)

subsection \<open>The forward transform\<close>

text \<open>
  C1, as stated: \<open>voxel_to_physical\<close> returns the product's first three components
  divided by \<open>w\<close>, also when the last row is not \<open>[0, 0, 0, 1]\<close>. The notebook does not
  divide: on the affine with last row \<open>[0, 0, 0, 2]\<close> and the voxel \<open>(2, 4, 6)\<close> it returns
  \<open>(2, 4, 6)\<close>, where the specification's algorithm gives \<open>(1, 2, 3)\<close>.
\<close>

theorem voxel_to_physical_not_homogenized:
  "voxel_to_physical halving_affine 2 4 6 = Inr [2, 4, 6] \<and>
   voxel_to_physical_spec halving_affine 2 4 6 = Inr [1, 2, 3]"
  by (simp add: voxel_to_physical_def voxel_to_physical_spec_def xyz1_def matmul_4x4
      dot_row_4 homogenize_def Let_def halving_affine_def)

text \<open>
  C1, amended: for every \<open>4 \<times> 4\<close> affine and all scalars \<open>i, j, k\<close>,
  \<open>voxel_to_physical\<close> returns the first three components \<open>(x', y', z')\<close> of the product
  \<open>affine \<cdot> (i, j, k, 1)\<close> as they are, with no division by the fourth component \<open>w\<close>;
  where \<open>w = 1\<close> this is the homogenized triple of the specification's algorithm.
\<close>

theorem voxel_to_physical_product:
  assumes "nrows A = 4" and "ncols A = 4"
  shows "voxel_to_physical A i j k =
           Inr [dot_row A 0 [i, j, k, 1], dot_row A 1 [i, j, k, 1], dot_row A 2 [i, j, k, 1]] \<and>
         (dot_row A 3 [i, j, k, 1] = 1 \<longrightarrow>
            voxel_to_physical_spec A i j k = voxel_to_physical A i j k)"
  using assms
  by (simp add: voxel_to_physical_def voxel_to_physical_spec_def xyz1_def matmul_4x4
      homogenize_def Let_def)

theorem voxel_to_physical_product_witness:
  "nrows scenario_affine = 4 \<and> ncols scenario_affine = 4 \<and>
   dot_row scenario_affine 3 [69, 119, 109, 1] = 1 \<and>
   voxel_to_physical scenario_affine 69 119 109 = Inr [51, -1, -1] \<and>
   voxel_to_physical_spec scenario_affine 69 119 109 = Inr [51, -1, -1]"
  using voxel_to_physical_product [of scenario_affine 69 119 109]
  by (simp add: dot_row_4 scenario_affine_def)

text \<open>
  C2. On the affine \<open>[[-1,0,0,120],[0,1,0,-120],[0,0,1,-110],[0,0,0,1]]\<close> and the voxel
  \<open>(69, 119, 109)\<close> the world coordinates are exactly \<open>(51, -1, -1)\<close>.
\<close>

theorem voxel_to_physical_scenario:
  "voxel_to_physical scenario_affine 69 119 109 = Inr [51, -1, -1]"
  by (simp add: voxel_to_physical_def xyz1_def matmul_4x4 dot_row_4 scenario_affine_def)

text \<open>
  C4, as stated: \<open>voxel_to_physical\<close> fails whenever the affine is not exactly
  \<open>4 \<times> 4\<close>. The only check is the one \<^verbatim>\<open>@\<close> makes, on the number of columns:
  an affine of shape \<open>(3, 4)\<close> is accepted.
\<close>

theorem voxel_to_physical_accepts_3x4:
  "nrows truncated_affine = 3 \<and> ncols truncated_affine = 4 \<and>
   voxel_to_physical truncated_affine 69 119 109 = Inr [51, -1, -1]"
  by (simp add: voxel_to_physical_def xyz1_def matmul_def dot_row_def truncated_affine_def
      scenario_affine_def upt_rec numeral_nat)

text \<open>
  C4, amended: \<open>voxel_to_physical\<close> fails exactly when the affine does not have four
  columns (so for a \<open>3 \<times> 3\<close> matrix), whatever its number of rows; the failure is the
  ValueError of \<^verbatim>\<open>@\<close>, raised by that operation itself, and it depends on the
  shape of the affine only; three coordinates are always supplied, the vector
  \<open>(i, j, k, 1)\<close> being built from them, and a vector built from two, \<open>(i, j, 1)\<close>, is
  refused by the same check on an affine of four columns; no other constraint on the
  affine is enforced.
\<close>

theorem voxel_to_physical_fails_iff:
  "(voxel_to_physical A i j k = Inl ValueError \<longleftrightarrow> ncols A \<noteq> 4) \<and>
   (ncols A = 4 \<longleftrightarrow> (\<exists>v. voxel_to_physical A i j k = Inr v)) \<and>
   (ncols A = 3 \<longrightarrow> nrows A = 3 \<longrightarrow> voxel_to_physical A i j k = Inl ValueError) \<and>
   (ncols A = 4 \<longrightarrow> matmul A [i, j, 1] = Inl ValueError)"
  by (simp add: voxel_to_physical_def xyz1_def matmul_def)

theorem voxel_to_physical_fails_iff_witness:
  "ncols (scenario_affine\<lparr>nrows := 3, ncols := 3\<rparr>) = 3 \<and>
   nrows (scenario_affine\<lparr>nrows := 3, ncols := 3\<rparr>) = 3 \<and>
   voxel_to_physical (scenario_affine\<lparr>nrows := 3, ncols := 3\<rparr>) 69 119 109 = Inl ValueError \<and>
   ncols scenario_affine = 4 \<and>
   (\<exists>v. voxel_to_physical scenario_affine 69 119 109 = Inr v) \<and>
   matmul scenario_affine [69, 119, 1] = Inl ValueError"
  using voxel_to_physical_fails_iff [of "scenario_affine\<lparr>nrows := 3, ncols := 3\<rparr>" 69 119 109]
    voxel_to_physical_fails_iff [of scenario_affine 69 119 109]
  by (simp add: scenario_affine_def)

text \<open>
  C9. For every \<open>4 \<times> 4\<close> affine whose last row is \<open>[0, 0, 0, 1]\<close> and all \<open>i, j, k\<close>, the
  notebook's product \<open>A @ (i, j, k, 1)\<close> is a vector \<open>(x, y, z, 1)\<close>: its fourth component
  is 1, and its first three are the output of the specification's multiply-then-divide
  algorithm.
\<close>

theorem xyz1_homogeneous:
  assumes "nrows A = 4" and "ncols A = 4"
    and "entry A 3 0 = 0" and "entry A 3 1 = 0" and "entry A 3 2 = 0" and "entry A 3 3 = 1"
  shows "\<exists>x y z. xyz1 A i j k = Inr [x, y, z, 1] \<and>
                 voxel_to_physical_spec A i j k = Inr [x, y, z]"
  using assms
  by (simp add: voxel_to_physical_spec_def xyz1_def matmul_4x4 dot_row_4 homogenize_def Let_def)

theorem xyz1_homogeneous_witness:
  "nrows scenario_affine = 4 \<and> ncols scenario_affine = 4 \<and>
   entry scenario_affine 3 0 = 0 \<and> entry scenario_affine 3 1 = 0 \<and>
   entry scenario_affine 3 2 = 0 \<and> entry scenario_affine 3 3 = 1 \<and>
   (\<exists>x y z. xyz1 scenario_affine 69 119 109 = Inr [x, y, z, 1] \<and>
            voxel_to_physical_spec scenario_affine 69 119 109 = Inr [x, y, z])"
  using xyz1_homogeneous [of scenario_affine 69 119 109]
  by (simp add: scenario_affine_def)

subsection \<open>Indexing\<close>

lemma resolve_whole_axis:
  "resolve (Slice None None None # ixs) (n # ns) =
     (case resolve ixs ns of Inl e \<Rightarrow> Inl e | Inr axs \<Rightarrow> Inr (Stride 0 1 n # axs))"
  by (simp add: slice_indices_def range_len_def Let_def split: sum.splits)

text \<open>
  C10. Indexing a three-dimensional array with one integer along one axis removes that
  axis from the result; no axis of size 1 is kept. For every shape \<open>(n0, n1, n2)\<close> and
  every integer \<open>i\<close> in range on its axis (counting from the end when negative),
  \<^verbatim>\<open>a[i, :, :]\<close> has shape \<open>(n1, n2)\<close>, \<^verbatim>\<open>a[:, i, :]\<close> has shape
  \<open>(n0, n2)\<close> and \<^verbatim>\<open>a[:, :, i]\<close> has shape \<open>(n0, n1)\<close>, and the element at
  \<open>(j, k)\<close> is the array's element with \<open>i\<close> put back on its axis. In particular, for
  the volume of shape \<open>(240, 240, 220)\<close>, \<^verbatim>\<open>img_data[119, :, :]\<close> has shape
  \<open>(240, 220)\<close> and its element at \<open>(j, k)\<close> is the volume's element at \<open>(119, j, k)\<close>.
\<close>

theorem integer_index_drops_axis:
  assumes "shape a = [n0, n1, n2]"
  shows "(- int n0 \<le> i \<and> i < int n0 \<longrightarrow>
            (\<exists>s. getitem a [Idx i, Slice None None None, Slice None None None] = Inr s \<and>
                 shape s = [n1, n2] \<and>
                 (\<forall>j k. item s [j, k] =
                    item a [nat (if i < 0 then i + int n0 else i), j, k]))) \<and>
         (- int n1 \<le> i \<and> i < int n1 \<longrightarrow>
            (\<exists>s. getitem a [Slice None None None, Idx i, Slice None None None] = Inr s \<and>
                 shape s = [n0, n2] \<and>
                 (\<forall>j k. item s [j, k] =
                    item a [j, nat (if i < 0 then i + int n1 else i), k]))) \<and>
         (- int n2 \<le> i \<and> i < int n2 \<longrightarrow>
            (\<exists>s. getitem a [Slice None None None, Slice None None None, Idx i] = Inr s \<and>
                 shape s = [n0, n1] \<and>
                 (\<forall>j k. item s [j, k] =
                    item a [j, k, nat (if i < 0 then i + int n2 else i)]))) \<and>
         (n0 = 240 \<and> n1 = 240 \<and> n2 = 220 \<longrightarrow>
            (\<exists>s. mid_slice_x a = Inr s \<and> shape s = [240, 220] \<and>
                 (\<forall>j k. j < 240 \<longrightarrow> k < 220 \<longrightarrow> item s [j, k] = item a [119, j, k])))"
  using assms
  by (simp add: mid_slice_x_def getitem_def resolve_whole_axis del: resolve.simps(5))

theorem integer_index_drops_axis_witness:
  "shape (positions [240, 240, 220]) = [240, 240, 220] \<and>
   (\<exists>s. mid_slice_x (positions [240, 240, 220]) = Inr s \<and> shape s = [240, 220] \<and>
        item s [5, 7] = [119, 5, 7]) \<and>
   (\<exists>s. getitem (positions [240, 240, 220]) [Slice None None None, Idx (- 1), Slice None None None]
          = Inr s \<and> shape s = [240, 220] \<and> item s [5, 7] = [5, 239, 7]) \<and>
   (\<exists>s. getitem (positions [240, 240, 220]) [Slice None None None, Slice None None None, Idx 1]
          = Inr s \<and> shape s = [240, 240] \<and> item s [5, 7] = [5, 7, 1])"
proof -
  have sh: "shape (positions [240, 240, 220]) = [240, 240, 220]"
    by (simp add: positions_def)
  note inst = integer_index_drops_axis [OF sh]
  from inst [of 119] obtain s0
    where s0: "mid_slice_x (positions [240, 240, 220]) = Inr s0" "shape s0 = [240, 220]"
      and el0: "\<forall>j k. j < 240 \<longrightarrow> k < 220 \<longrightarrow>
                  item s0 [j, k] = item (positions [240, 240, 220]) [119, j, k]"
    by blast
  from el0 have "item s0 [5, 7] = item (positions [240, 240, 220]) [119, 5, 7]"
    by simp
  then have v0: "item s0 [5, 7] = [119, 5, 7]"
    by (simp add: positions_def)
  have "- int 240 \<le> (- 1 :: int) \<and> (- 1 :: int) < int 240"
    by simp
  with inst [of "- 1"] obtain s1
    where s1: "getitem (positions [240, 240, 220])
                 [Slice None None None, Idx (- 1), Slice None None None] = Inr s1"
        "shape s1 = [240, 220]"
      and el1: "\<forall>j k. item s1 [j, k] = item (positions [240, 240, 220])
                  [j, nat (if (- 1 :: int) < 0 then - 1 + int 240 else - 1), k]"
    by blast
  from el1 have v1: "item s1 [5, 7] = [5, 239, 7]"
    by (simp add: positions_def)
  have "- int 220 \<le> (1 :: int) \<and> (1 :: int) < int 220"
    by simp
  with inst [of 1] obtain s2
    where s2: "getitem (positions [240, 240, 220])
                 [Slice None None None, Slice None None None, Idx 1] = Inr s2"
        "shape s2 = [240, 240]"
      and el2: "\<forall>j k. item s2 [j, k] = item (positions [240, 240, 220])
                  [j, k, nat (if (1 :: int) < 0 then 1 + int 220 else 1)]"
    by blast
  from el2 have v2: "item s2 [5, 7] = [5, 7, 1]"
    by (simp add: positions_def)
  from sh s0 v0 s1 v1 s2 v2 show ?thesis
    by blast
qed

text \<open>
  C6. For a volume of shape \<open>(80, 80, 44, 50)\<close>, the odd indices \<open>1, 3, 5, ...\<close> along
  axis 3 make a result of shape \<open>(80, 80, 44, 25)\<close>; its element at time \<open>t\<close> is the
  volume's element at time \<open>2 t + 1\<close>.
\<close>

theorem f_img_data_odd_shape:
  assumes "shape f_img_data = [80, 80, 44, 50]"
  shows "\<exists>r. f_img_data_odd f_img_data = Inr r \<and> shape r = [80, 80, 44, 25] \<and>
             (\<forall>x y z t. item r [x, y, z, t] = item f_img_data [x, y, z, 2 * t + 1])"
  using assms
  by (simp add: f_img_data_odd_def getitem_def slice_indices_def range_len_def Let_def
      nat_add_distrib nat_mult_distrib)

theorem f_img_data_odd_shape_witness:
  "shape (positions [80, 80, 44, 50]) = [80, 80, 44, 50] \<and>
   (\<exists>r. f_img_data_odd (positions [80, 80, 44, 50]) = Inr r \<and> shape r = [80, 80, 44, 25] \<and>
        item r [0, 0, 0, 24] = [0, 0, 0, 49])"
proof -
  have sh: "shape (positions [80, 80, 44, 50]) = [80, 80, 44, 50]"
    by (simp add: positions_def)
  from f_img_data_odd_shape [OF sh] obtain r
    where r: "f_img_data_odd (positions [80, 80, 44, 50]) = Inr r" "shape r = [80, 80, 44, 25]"
      and el: "\<forall>x y z t. item r [x, y, z, t] =
                 item (positions [80, 80, 44, 50]) [x, y, z, 2 * t + 1]"
    by blast
  from el have "item r [0, 0, 0, 24] = item (positions [80, 80, 44, 50]) [0, 0, 0, 2 * 24 + 1]"
    by blast
  then have "item r [0, 0, 0, 24] = [0, 0, 0, 49]"
    by (simp add: positions_def)
  with sh r show ?thesis
    by blast
qed

subsection \<open>The inverse of a \<open>4 \<times> 4\<close> matrix\<close>

lemmas det_defs = det4_def cofactor_def det3_def delete_row_col_def

lemma adjugate_left:
  assumes "ncols A = 4"
  shows "cofactor A 0 0 * dot_row A 0 [a, b, c, d] + cofactor A 1 0 * dot_row A 1 [a, b, c, d]
       + cofactor A 2 0 * dot_row A 2 [a, b, c, d] + cofactor A 3 0 * dot_row A 3 [a, b, c, d]
       = det4 A * a"
    and "cofactor A 0 1 * dot_row A 0 [a, b, c, d] + cofactor A 1 1 * dot_row A 1 [a, b, c, d]
       + cofactor A 2 1 * dot_row A 2 [a, b, c, d] + cofactor A 3 1 * dot_row A 3 [a, b, c, d]
       = det4 A * b"
    and "cofactor A 0 2 * dot_row A 0 [a, b, c, d] + cofactor A 1 2 * dot_row A 1 [a, b, c, d]
       + cofactor A 2 2 * dot_row A 2 [a, b, c, d] + cofactor A 3 2 * dot_row A 3 [a, b, c, d]
       = det4 A * c"
    and "cofactor A 0 3 * dot_row A 0 [a, b, c, d] + cofactor A 1 3 * dot_row A 1 [a, b, c, d]
       + cofactor A 2 3 * dot_row A 2 [a, b, c, d] + cofactor A 3 3 * dot_row A 3 [a, b, c, d]
       = det4 A * d"
  unfolding dot_row_4 [OF assms]
  by (simp_all add: det_defs eval_nat_numeral algebra_simps)




lemma inverse4_shape:
  assumes "det4 A \<noteq> 0"
  shows "\<exists>B. inverse4 A = Some B \<and> nrows B = 4 \<and> ncols B = 4 \<and>
             (\<forall>r c. entry B r c = cofactor A c r / det4 A)"
  using assms by (simp add: inverse4_def)

lemma inverse4_row:
  assumes "det4 A \<noteq> 0" and "inverse4 A = Some B"
  shows "dot_row B r [p, q, s, t] =
      (cofactor A 0 r * p + cofactor A 1 r * q + cofactor A 2 r * s + cofactor A 3 r * t) / det4 A"
proof -
  from assms have "ncols B = 4" and "\<And>r c. entry B r c = cofactor A c r / det4 A"
    by (auto simp: inverse4_def)
  then show ?thesis
    by (simp add: dot_row_4 add_divide_distrib)
qed

lemma inverse4_left:
  assumes "ncols A = 4" and "det4 A \<noteq> 0" and "inverse4 A = Some B"
  shows "matmul B [dot_row A 0 [a, b, c, d], dot_row A 1 [a, b, c, d],
                   dot_row A 2 [a, b, c, d], dot_row A 3 [a, b, c, d]] = Inr [a, b, c, d]"
    (is "matmul B ?p = _")
proof -
  note row = inverse4_row [OF assms(2,3)] and adj = adjugate_left [OF assms(1), of a b c d]
  from assms(2,3) have B: "nrows B = 4" "ncols B = 4"
    by (auto simp: inverse4_def)
  have "dot_row B 0 ?p = a" and "dot_row B 1 ?p = b" and "dot_row B 2 ?p = c"
    and "dot_row B 3 ?p = d"
    using assms(2) by (simp_all only: row adj) simp_all
  moreover have "matmul B ?p = Inr [dot_row B 0 ?p, dot_row B 1 ?p, dot_row B 2 ?p, dot_row B 3 ?p]"
    by (rule matmul_4x4) (simp_all add: B)
  ultimately show ?thesis
    by (simp only:)
qed



lemma dot_row_scaled:
  assumes "ncols A = 4"
  shows "dot_row A r [a / w, b / w, c / w, d / w] = dot_row A r [a, b, c, d] / w"
  by (simp add: dot_row_4 [OF assms] add_divide_distrib)


subsection \<open>The round trip\<close>

text \<open>
  C3, as stated: for every \<open>4 \<times> 4\<close> affine with nonzero homogeneous term and every
  integer voxel, \<open>voxel_to_physical\<close> followed by \<open>physical_to_voxel\<close> returns the voxel.
  On an affine whose leading block has two identical rows the homogeneous term is 1,
  the voxels \<open>(1, 2, 3)\<close> and \<open>(1, 5, 3)\<close> have the same physical coordinate \<open>(1, 1, 3)\<close>,
  with the specification's forward transform as with the notebook's, and the way back
  from it fails with SingularMatrix.
\<close>

theorem round_trip_fails:
  "dot_row collapsed_affine 3 [1, 2, 3, 1] = 1 \<and>
   voxel_to_physical_spec collapsed_affine 1 2 3 = Inr [1, 1, 3] \<and>
   voxel_to_physical_spec collapsed_affine 1 5 3 = Inr [1, 1, 3] \<and>
   voxel_to_physical collapsed_affine 1 2 3 = Inr [1, 1, 3] \<and>
   voxel_to_physical collapsed_affine 1 5 3 = Inr [1, 1, 3] \<and>
   physical_to_voxel collapsed_affine 1 1 3 = Inl SingularMatrix"
  by (simp add: voxel_to_physical_def xyz1_def physical_to_voxel_def voxel_to_physical_spec_def
      det3_def leading_block_def collapsed_affine_def matmul_4x4 dot_row_4 homogenize_def
      Let_def)

text \<open>
  C3, amended: for every \<open>4 \<times> 4\<close> affine \<open>A\<close> that is invertible (its leading
  \<open>3 \<times> 3\<close> block and the whole matrix have nonzero determinant) and every integer
  voxel \<open>(i, j, k)\<close> with nonzero homogeneous term, the specification's
  \<open>voxel_to_physical\<close> followed by \<open>physical_to_voxel\<close> returns \<open>(i, j, k)\<close>, exactly in
  exact arithmetic.
\<close>

theorem round_trip:
  assumes "nrows A = 4" and "ncols A = 4"
    and "det3 (leading_block A) \<noteq> 0" and "det4 A \<noteq> 0"
    and "dot_row A 3 [of_int i, of_int j, of_int k, 1] \<noteq> 0"
  shows "\<exists>x y z. voxel_to_physical_spec A (of_int i) (of_int j) (of_int k) = Inr [x, y, z] \<and>
                 physical_to_voxel A x y z = Inr [of_int i, of_int j, of_int k]"
proof -
  let ?v = "[real_of_int i, of_int j, of_int k, 1]"
  define w where "w = dot_row A 3 ?v"
  let ?u = "[real_of_int i / w, of_int j / w, of_int k / w, 1 / w]"
  from assms(5) have w: "w \<noteq> 0"
    by (simp add: w_def)
  from inverse4_shape [OF assms(4)] obtain B
    where B: "inverse4 A = Some B" "nrows B = 4" "ncols B = 4"
    by blast
  have fwd: "voxel_to_physical_spec A (of_int i) (of_int j) (of_int k) =
      Inr [dot_row A 0 ?v / w, dot_row A 1 ?v / w, dot_row A 2 ?v / w]"
    using w by (simp add: voxel_to_physical_spec_def matmul_4x4 assms(1,2) homogenize_def
        Let_def w_def)
  have "matmul B [dot_row A 0 ?u, dot_row A 1 ?u, dot_row A 2 ?u, dot_row A 3 ?u] = Inr ?u"
    by (rule inverse4_left [OF assms(2) assms(4) B(1)])
  moreover have "dot_row A 3 ?u = 1"
    using w by (simp only: dot_row_scaled [OF assms(2)] w_def [symmetric]) simp
  ultimately have
    "matmul B [dot_row A 0 ?v / w, dot_row A 1 ?v / w, dot_row A 2 ?v / w, 1] = Inr ?u"
    by (simp only: dot_row_scaled [OF assms(2)])
  then have "physical_to_voxel A (dot_row A 0 ?v / w) (dot_row A 1 ?v / w) (dot_row A 2 ?v / w) =
      Inr [of_int i, of_int j, of_int k]"
    using w by (simp add: physical_to_voxel_def voxel_to_physical_spec_def assms(1-3) B
        homogenize_def Let_def)
  with fwd show ?thesis
    by blast
qed

theorem round_trip_witness:
  "nrows halving_affine = 4 \<and> ncols halving_affine = 4 \<and>
   det3 (leading_block halving_affine) \<noteq> 0 \<and> det4 halving_affine \<noteq> 0 \<and>
   dot_row halving_affine 3 [2, 4, 6, 1] = 2 \<and>
   (\<exists>x y z. voxel_to_physical_spec halving_affine 2 4 6 = Inr [x, y, z] \<and>
            physical_to_voxel halving_affine x y z = Inr [2, 4, 6])"
  using round_trip [of halving_affine 2 4 6]
  by (simp add: det_defs leading_block_def dot_row_4 halving_affine_def)

subsection \<open>Singular affines\<close>



end
